theory Spec2Isabelle
  imports Main "HOL-Library.Sublist" "HOL-Library.Word"
begin

section \<open>Package tsweb: debug access, the port 80 handler and the varz exporter\<close>

subsection \<open>What the handlers use of Go's standard library\<close>

text \<open>
  \<^verbatim>\<open>net.SplitHostPort\<close> and \<open>net.JoinHostPort\<close> belong to Go's package \<open>net\<close>, not to
  the repository. They are transcribed here as the handlers call them: the split
  returns the triple \<open>(host, port, err)\<close>, with both strings empty when \<open>err\<close> is
  set. The error texts of \<open>net.AddrError\<close> are the constructors of \<open>AddrError\<close>.
\<close>

datatype AddrError =
    missingPort
  | tooManyColons
  | missingClosingBracket
  | unexpectedOpeningBracket
  | unexpectedClosingBracket

text \<open>Index of the first, and of the last, occurrence of a byte; Go returns \<open>-1\<close> for none.\<close>

definition IndexByteString :: "string \<Rightarrow> char \<Rightarrow> nat option" where
  "IndexByteString s c =
     (if c \<in> set s then Some (length (takeWhile (\<lambda>x. x \<noteq> c) s)) else None)"

definition last_byte :: "string \<Rightarrow> char \<Rightarrow> nat option" where
  "last_byte s c =
     (if c \<in> set s then Some (length s - 1 - length (takeWhile (\<lambda>x. x \<noteq> c) (rev s)))
      else None)"

definition addrErr :: "AddrError \<Rightarrow> string \<times> string \<times> AddrError option" where
  "addrErr why = ([], [], Some why)"

text \<open>
  The common end of \<open>SplitHostPort\<close>: no \<open>[\<close> from position \<open>j\<close> on, no \<open>]\<close> from
  position \<open>k\<close> on, and the port is what follows the last colon, at \<open>i\<close>.
\<close>

definition split_rest ::
  "string \<Rightarrow> string \<Rightarrow> nat \<Rightarrow> nat \<Rightarrow> nat \<Rightarrow> string \<times> string \<times> AddrError option" where
  "split_rest hostport host j k i =
     (if CHR ''['' \<in> set (drop j hostport) then addrErr unexpectedOpeningBracket
      else if CHR '']'' \<in> set (drop k hostport) then addrErr unexpectedClosingBracket
      else (host, drop (i + 1) hostport, None))"

definition SplitHostPort :: "string \<Rightarrow> string \<times> string \<times> AddrError option" where
  "SplitHostPort hostport =
     (case last_byte hostport CHR '':'' of
        None \<Rightarrow> addrErr missingPort
      | Some i \<Rightarrow>
          if hd hostport = CHR ''['' then
            (case IndexByteString hostport CHR '']'' of
               None \<Rightarrow> addrErr missingClosingBracket
             | Some e \<Rightarrow>
                 if e + 1 = length hostport then addrErr missingPort
                 else if e + 1 = i then
                   split_rest hostport (take (e - 1) (drop 1 hostport)) 1 (e + 1) i
                 else if hostport ! (e + 1) = CHR '':'' then addrErr tooManyColons
                 else addrErr missingPort)
          else
            (let host = take i hostport in
             if CHR '':'' \<in> set host then addrErr tooManyColons
             else split_rest hostport host 0 0 i))"

definition JoinHostPort :: "string \<Rightarrow> string \<Rightarrow> string" where
  "JoinHostPort host port =
     (if CHR '':'' \<in> set host then ''['' @ host @ '']:'' @ port
      else host @ '':'' @ port)"

text \<open>\<^verbatim>\<open>strings.HasPrefix(s, p)\<close> and \<^verbatim>\<open>strings.TrimPrefix(s, p)\<close>.\<close>

definition HasPrefix :: "string \<Rightarrow> string \<Rightarrow> bool" where
  "HasPrefix s p = prefix p s"

definition TrimPrefix :: "string \<Rightarrow> string \<Rightarrow> string" where
  "TrimPrefix s p = (if HasPrefix s p then drop (length p) s else s)"

subsection \<open>Requests, response writers and the process environment\<close>

text \<open>
  An \<open>http.Request\<close> with the fields the package reads. \<open>Header\<close> is Go's
  \<open>map[string][]string\<close>: a key that is absent yields the nil slice, here \<open>[]\<close>.
\<close>

record Request =
  Method :: string
  RequestURI :: string
  Host :: string
  RemoteAddr :: string
  Header :: "string \<Rightarrow> string list"

text \<open>\<^verbatim>\<open>Header.Get\<close>: the first value stored under the key, or the empty string.\<close>

definition Header_Get :: "(string \<Rightarrow> string list) \<Rightarrow> string \<Rightarrow> string" where
  "Header_Get h key = (case h key of [] \<Rightarrow> [] | v # _ \<Rightarrow> v)"

text \<open>
  The lines the exporter prints. \<open>Metric name typ v\<close> is the output of the formats
  \<^verbatim>\<open>"# TYPE %s counter\n%s %v\n"\<close> and \<^verbatim>\<open>"# TYPE %s %s\n%s %v\n"\<close>;
  \<open>SkippingExpvarFunc name T\<close> that of
  \<^verbatim>\<open>"# skipping expvar func %q returning unknown type %T\n"\<close>, and \<open>SkippingFunc name T\<close>
  that of \<^verbatim>\<open>"# skipping func %q returning unknown type %T\n"\<close>.
\<close>

datatype line =
    Metric string string int
  | SkippingExpvarFunc string string
  | SkippingFunc string string

text \<open>
  A response writer is the log of what a handler did to it, oldest first: a header it
  set, a call of \<open>http.Error\<close> or \<open>http.Redirect\<close> (message or target, and status),
  or a line printed by the varz exporter. A handler takes the writer and the request
  and returns the writer it leaves behind.
\<close>

datatype call =
    HeaderSet string string
  | HttpError string nat
  | HttpRedirect string nat
  | Fprintf line

type_synonym ResponseWriter = "call list"

type_synonym Handler = "ResponseWriter \<Rightarrow> Request \<Rightarrow> ResponseWriter"

definition StatusFound :: nat where "StatusFound = 302"
definition StatusBadRequest :: nat where "StatusBadRequest = 400"

definition http_Error :: "ResponseWriter \<Rightarrow> string \<Rightarrow> nat \<Rightarrow> ResponseWriter" where
  "http_Error w msg code = w @ [HttpError msg code]"

definition http_Redirect :: "ResponseWriter \<Rightarrow> Request \<Rightarrow> string \<Rightarrow> nat \<Rightarrow> ResponseWriter" where
  "http_Redirect w r url code = w @ [HttpRedirect url code]"

text \<open>
  What the package reads from outside itself: the package variable \<open>DevMode\<close>,
  \<open>os.Getenv\<close>, \<open>net.ParseIP\<close> and \<open>net.IP.IsLoopback\<close> of the standard library, and
  \<open>interfaces.IsTailscaleIP\<close>, whose source is not part of this development. They are
  parameters; every theorem below holds for all of them. A \<open>net.IP\<close> is a byte slice.
\<close>

type_synonym IP = "8 word list"

record Env =
  DevMode :: bool
  Getenv :: "string \<Rightarrow> string"
  ParseIP :: "string \<Rightarrow> IP"
  IsTailscaleIP :: "IP \<Rightarrow> bool"
  IsLoopback :: "IP \<Rightarrow> bool"

subsection \<open>AllowDebugAccess and Protected\<close>

definition AllowDebugAccess :: "Env \<Rightarrow> Request \<Rightarrow> bool" where
  "AllowDebugAccess E r =
     (if Header_Get (Header r) ''X-Forwarded-For'' \<noteq> [] then False
      else
        (case SplitHostPort (RemoteAddr r) of
           (ipStr, _, Some err) \<Rightarrow> False
         | (ipStr, _, None) \<Rightarrow>
             (let ip = ParseIP E ipStr in
              IsTailscaleIP E ip \<or> IsLoopback E ip \<or> ipStr = Getenv E ''ALLOW_DEBUG_IP'')))"


subsection \<open>Port80Handler\<close>

record Port80Handler =
  Main :: Handler

definition stripPort :: "string \<Rightarrow> string" where
  "stripPort hostport =
     (case SplitHostPort hostport of
        (host, _, Some err) \<Rightarrow> hostport
      | (host, _, None) \<Rightarrow> JoinHostPort host ''443'')"

definition ServeHTTP :: "Env \<Rightarrow> Port80Handler \<Rightarrow> Handler" where
  "ServeHTTP E h = (\<lambda>w r.
     let path = RequestURI r in
     if path = ''/debug'' \<or> HasPrefix path ''/debug'' then Main h w r
     else if Method r \<noteq> ''GET'' \<and> Method r \<noteq> ''HEAD'' then
       http_Error w ''Use HTTPS'' StatusBadRequest
     else
       (let path = (if path = ''/'' \<and> AllowDebugAccess E r then ''/debug/'' else path);
            target = ''https://'' @ stripPort (Host r) @ path
        in http_Redirect w r target StatusFound))"

subsection \<open>varzHandler\<close>

text \<open>
  The values the exporter meets. An \<open>expvar.Func\<close> is given by what its call returns:
  an \<open>int\<close>, an \<open>int64\<close>, or a value of another type, of which only the name of the
  type is printed. A \<open>metrics.Set\<close> is given by its key-value pairs in the order its
  \<open>Do\<close> visits them. Any other \<open>expvar.Var\<close> is given by the name of its type.
\<close>

datatype func_result =
    ret_int int
  | ret_int64 int
  | ret_other string

datatype Var =
    expvar_Int int
  | metrics_Set "(string \<times> Var) list"
  | expvar_Func func_result
  | other_Var string

type_synonym KeyValue = "string \<times> Var"

text \<open>The \<open>typ\<close> and the \<open>name\<close> that \<open>dump\<close> derives from a key after its type switch.\<close>

definition typ_name :: "string \<Rightarrow> string \<Rightarrow> string \<times> string" where
  "typ_name pre key =
     (if HasPrefix key ''gauge_'' then (''gauge'', pre @ TrimPrefix key ''gauge_'')
      else if HasPrefix key ''counter_'' then (''counter'', pre @ TrimPrefix key ''counter_'')
      else ([], pre @ key))"

fun dump :: "string \<Rightarrow> KeyValue \<Rightarrow> ResponseWriter \<Rightarrow> ResponseWriter" where
  "dump pre (key, expvar_Int v) w =
     (let name = pre @ key in w @ [Fprintf (Metric name ''counter'' v)])"
| "dump pre (key, metrics_Set kvs) w =
     (let name = pre @ key in fold (dump (name @ ''_'')) kvs w)"
| "dump pre (key, expvar_Func val) w =
     (case typ_name pre key of (typ, name) \<Rightarrow>
        (case val of
           ret_int n \<Rightarrow>
             if typ \<noteq> [] then w @ [Fprintf (Metric name typ n)]
             else w @ [Fprintf (SkippingExpvarFunc name ''int'')]
         | ret_int64 n \<Rightarrow>
             if typ \<noteq> [] then w @ [Fprintf (Metric name typ n)]
             else w @ [Fprintf (SkippingExpvarFunc name ''int64'')]
         | ret_other T \<Rightarrow> w @ [Fprintf (SkippingExpvarFunc name T)]))"
| "dump pre (key, other_Var T) w =
     (case typ_name pre key of (typ, name) \<Rightarrow> w @ [Fprintf (SkippingFunc name T)])"

text \<open>\<open>vars\<close> is what \<open>expvar.Do\<close> visits: the published variables, in its order.\<close>

definition varzHandler :: "KeyValue list \<Rightarrow> Handler" where
  "varzHandler vars = (\<lambda>w r.
     fold (dump []) vars (w @ [HeaderSet ''Content-Type'' ''text/plain; version=0.0.4'']))"

section \<open>Package magicsock: the Peer Endpoint Table and Send\<close>





















section \<open>Properties of package tsweb\<close>

subsection \<open>Debug access\<close>


lemma split_loopback: "SplitHostPort ''127.0.0.1:5000'' = (''127.0.0.1'', ''5000'', None)"
  by (simp add: SplitHostPort_def last_byte_def IndexByteString_def split_rest_def)






subsection \<open>The port 80 handler\<close>

lemma split_rest_None:
  "split_rest hp h j k i = (h', p, None) \<Longrightarrow>
     h' = h \<and> p = drop (i + 1) hp \<and> CHR ''['' \<notin> set (drop j hp) \<and> CHR '']'' \<notin> set (drop k hp)"
  by (auto simp: split_rest_def addrErr_def split: if_splits)

lemma set_take_takeWhile:
  "c \<notin> set (take (length (takeWhile (\<lambda>x. x \<noteq> c) s)) s)"
  by (metis (mono_tags, lifting) set_takeWhileD takeWhile_eq_take)

lemma split_host_no_brackets:
  assumes "SplitHostPort hp = (h, p, None)"
  shows "CHR ''['' \<notin> set h \<and> CHR '']'' \<notin> set h"
proof -
  obtain i where i: "last_byte hp CHR '':'' = Some i"
    using assms by (auto simp: SplitHostPort_def addrErr_def split: option.splits)
  show ?thesis
  proof (cases "hd hp = CHR ''[''")
    case True
    then obtain e where e: "IndexByteString hp CHR '']'' = Some e"
      using assms i by (auto simp: SplitHostPort_def addrErr_def split: option.splits)
    have r: "split_rest hp (take (e - 1) (drop 1 hp)) 1 (e + 1) i = (h, p, None)"
      using assms i e True
      by (auto simp: SplitHostPort_def addrErr_def split: option.splits if_splits)
    from split_rest_None[OF r] have h: "h = take (e - 1) (drop 1 hp)"
      and nb: "CHR ''['' \<notin> set (drop 1 hp)" by auto
    have "set h \<subseteq> set (drop 1 hp)" unfolding h by (rule set_take_subset)
    with nb have 1: "CHR ''['' \<notin> set h" by auto
    have "e = length (takeWhile (\<lambda>x. x \<noteq> CHR '']'') hp)"
      using e by (auto simp: IndexByteString_def split: if_splits)
    then have "CHR '']'' \<notin> set (take e hp)" using set_take_takeWhile by metis
    moreover have "set h \<subseteq> set (take e hp)"
      unfolding h by (cases hp) (auto simp: take_Cons' dest: in_set_takeD)
    ultimately show ?thesis using 1 by auto
  next
    case False
    then have r: "split_rest hp (take i hp) 0 0 i = (h, p, None)"
      using assms i
      by (auto simp: SplitHostPort_def addrErr_def Let_def split: option.splits if_splits)
    from split_rest_None[OF r] show ?thesis
      by (auto dest: in_set_takeD)
  qed
qed

lemma split_join_443:
  assumes "CHR ''['' \<notin> set h" "CHR '']'' \<notin> set h"
  shows "SplitHostPort (JoinHostPort h ''443'') = (h, ''443'', None)"
proof (cases "CHR '':'' \<in> set h")
  case True
  have tw: "takeWhile (\<lambda>x. x \<noteq> CHR '']'') (h @ '']:443'') = h"
    using assms by (subst takeWhile_append2) auto
  show ?thesis using True assms
    by (simp add: JoinHostPort_def SplitHostPort_def last_byte_def IndexByteString_def
        split_rest_def tw)
next
  case False
  have hd: "hd (h @ '':443'') \<noteq> CHR ''[''"
    using assms by (cases h) auto
  show ?thesis using False assms hd
    by (simp add: JoinHostPort_def SplitHostPort_def last_byte_def IndexByteString_def
        split_rest_def Let_def)
qed

lemma stripPort_443:
  assumes "SplitHostPort hp = (h, p, None)"
  shows "stripPort hp = JoinHostPort h ''443''"
    and "SplitHostPort (stripPort hp) = (h, ''443'', None)"
proof -
  show 1: "stripPort hp = JoinHostPort h ''443''"
    using assms by (simp add: stripPort_def)
  show "SplitHostPort (stripPort hp) = (h, ''443'', None)"
    unfolding 1 using split_host_no_brackets[OF assms] by (simp add: split_join_443)
qed

lemma stripPort_unparsed:
  "snd (snd (SplitHostPort hp)) \<noteq> None \<Longrightarrow> stripPort hp = hp"
  by (cases "SplitHostPort hp") (auto simp: stripPort_def)

lemma HasPrefix_debug: "(path = ''/debug'' \<or> HasPrefix path ''/debug'') = HasPrefix path ''/debug''"
  by (auto simp: HasPrefix_def)

lemma split_example_80: "SplitHostPort ''example.com:80'' = (''example.com'', ''80'', None)"
  by (simp add: SplitHostPort_def last_byte_def IndexByteString_def split_rest_def)

lemma split_example: "SplitHostPort ''example.com'' = ([], [], Some missingPort)"
  by (simp add: SplitHostPort_def last_byte_def addrErr_def)

text \<open>
  Claim C9. \<open>Port80Handler.ServeHTTP\<close> hands a request whose URI starts with
  \<open>/debug\<close> to the inner \<open>Main\<close> handler. Any other request whose method is neither
  \<open>GET\<close> nor \<open>HEAD\<close> gets status 400 with the message \<open>Use HTTPS\<close>, and every other
  one is redirected with status 302 to \<open>https://\<close>, the host as \<open>stripPort\<close> leaves it,
  and the path, where the path \<open>/\<close> of a client with debug access becomes \<open>/debug/\<close>. In both
  cases the inner handler is not run. A host that splits into host and port is joined
  to port 443, and then splits into the same host and port 443; a host that does
  not split is kept as it is.
\<close>

theorem port80_ServeHTTP:
  "(HasPrefix (RequestURI r) ''/debug'' \<longrightarrow> ServeHTTP E h w r = Main h w r)
   \<and> (\<not> HasPrefix (RequestURI r) ''/debug'' \<longrightarrow>
        Method r \<noteq> ''GET'' \<longrightarrow> Method r \<noteq> ''HEAD'' \<longrightarrow>
        (\<forall>h. ServeHTTP E h w r = w @ [HttpError ''Use HTTPS'' 400]))
   \<and> (\<not> HasPrefix (RequestURI r) ''/debug'' \<longrightarrow>
        Method r = ''GET'' \<or> Method r = ''HEAD'' \<longrightarrow>
        (\<forall>h. ServeHTTP E h w r =
           w @ [HttpRedirect
                  (''https://'' @ stripPort (Host r)
                     @ (if RequestURI r = ''/'' \<and> AllowDebugAccess E r then ''/debug/''
                        else RequestURI r)) 302]))
   \<and> (SplitHostPort (Host r) = (host, port, None) \<longrightarrow>
        stripPort (Host r) = JoinHostPort host ''443''
        \<and> SplitHostPort (stripPort (Host r)) = (host, ''443'', None))
   \<and> (snd (snd (SplitHostPort (Host r))) \<noteq> None \<longrightarrow> stripPort (Host r) = Host r)"
proof (intro conjI impI allI)
  assume "HasPrefix (RequestURI r) ''/debug''"
  then show "ServeHTTP E h w r = Main h w r"
    by (simp add: ServeHTTP_def)
next
  fix h'
  assume "\<not> HasPrefix (RequestURI r) ''/debug''" "Method r \<noteq> ''GET''" "Method r \<noteq> ''HEAD''"
  then show "ServeHTTP E h' w r = w @ [HttpError ''Use HTTPS'' 400]"
    by (simp add: ServeHTTP_def HasPrefix_debug http_Error_def StatusBadRequest_def)
next
  fix h'
  assume "\<not> HasPrefix (RequestURI r) ''/debug''" "Method r = ''GET'' \<or> Method r = ''HEAD''"
  then show "ServeHTTP E h' w r =
           w @ [HttpRedirect
                  (''https://'' @ stripPort (Host r)
                     @ (if RequestURI r = ''/'' \<and> AllowDebugAccess E r then ''/debug/''
                        else RequestURI r)) 302]"
    by (auto simp: ServeHTTP_def HasPrefix_debug http_Redirect_def StatusFound_def Let_def)
next
  assume s: "SplitHostPort (Host r) = (host, port, None)"
  show "stripPort (Host r) = JoinHostPort host ''443''"
    by (rule stripPort_443(1)[OF s])
  show "SplitHostPort (stripPort (Host r)) = (host, ''443'', None)"
    by (rule stripPort_443(2)[OF s])
next
  assume "snd (snd (SplitHostPort (Host r))) \<noteq> None"
  then show "stripPort (Host r) = Host r"
    by (rule stripPort_unparsed)
qed

text \<open>
  The theorem at concrete requests: a debug URI, a \<open>POST\<close>, a \<open>GET\<close> of a page on a host
  with a port, and a \<open>HEAD\<close> of \<open>/\<close> from the loopback address on a host without one.
\<close>

theorem port80_ServeHTTP_witness:
  "ServeHTTP
       \<lparr>DevMode = False, Getenv = (\<lambda>_. []),
        ParseIP = (\<lambda>s. if s = ''127.0.0.1'' then [127, 0, 0, 1] else []),
        IsTailscaleIP = (\<lambda>_. False), IsLoopback = (\<lambda>ip. ip = [127, 0, 0, 1])\<rparr>
       \<lparr>Main = (\<lambda>w r. w @ [HeaderSet ''served-by'' ''main''])\<rparr> []
       \<lparr>Method = ''GET'', RequestURI = ''/debug/varz'', Host = ''example.com:80'',
        RemoteAddr = ''8.8.8.8:5000'', Header = (\<lambda>_. [])\<rparr>
     = [HeaderSet ''served-by'' ''main'']
   \<and> ServeHTTP
       \<lparr>DevMode = False, Getenv = (\<lambda>_. []),
        ParseIP = (\<lambda>s. if s = ''127.0.0.1'' then [127, 0, 0, 1] else []),
        IsTailscaleIP = (\<lambda>_. False), IsLoopback = (\<lambda>ip. ip = [127, 0, 0, 1])\<rparr>
       \<lparr>Main = (\<lambda>w r. w @ [HeaderSet ''served-by'' ''main''])\<rparr> []
       \<lparr>Method = ''POST'', RequestURI = ''/index'', Host = ''example.com:80'',
        RemoteAddr = ''8.8.8.8:5000'', Header = (\<lambda>_. [])\<rparr>
     = [HttpError ''Use HTTPS'' 400]
   \<and> ServeHTTP
       \<lparr>DevMode = False, Getenv = (\<lambda>_. []),
        ParseIP = (\<lambda>s. if s = ''127.0.0.1'' then [127, 0, 0, 1] else []),
        IsTailscaleIP = (\<lambda>_. False), IsLoopback = (\<lambda>ip. ip = [127, 0, 0, 1])\<rparr>
       \<lparr>Main = (\<lambda>w r. w @ [HeaderSet ''served-by'' ''main''])\<rparr> []
       \<lparr>Method = ''GET'', RequestURI = ''/index'', Host = ''example.com:80'',
        RemoteAddr = ''8.8.8.8:5000'', Header = (\<lambda>_. [])\<rparr>
     = [HttpRedirect ''https://example.com:443/index'' 302]
   \<and> ServeHTTP
       \<lparr>DevMode = False, Getenv = (\<lambda>_. []),
        ParseIP = (\<lambda>s. if s = ''127.0.0.1'' then [127, 0, 0, 1] else []),
        IsTailscaleIP = (\<lambda>_. False), IsLoopback = (\<lambda>ip. ip = [127, 0, 0, 1])\<rparr>
       \<lparr>Main = (\<lambda>w r. w @ [HeaderSet ''served-by'' ''main''])\<rparr> []
       \<lparr>Method = ''HEAD'', RequestURI = ''/'', Host = ''example.com'',
        RemoteAddr = ''127.0.0.1:5000'', Header = (\<lambda>_. [])\<rparr>
     = [HttpRedirect ''https://example.com/debug/'' 302]"
  (is "ServeHTTP ?E ?H [] ?r1 = ?o1 \<and> ServeHTTP ?E ?H [] ?r2 = ?o2
       \<and> ServeHTTP ?E ?H [] ?r3 = ?o3 \<and> ServeHTTP ?E ?H [] ?r4 = ?o4")
proof -
  have 1: "ServeHTTP ?E ?H [] ?r1 = ?o1"
    using port80_ServeHTTP[where E="?E" and h="?H" and w="[]" and r="?r1"]
    by (simp add: HasPrefix_def)
  have 2: "ServeHTTP ?E ?H [] ?r2 = ?o2"
    using port80_ServeHTTP[where E="?E" and w="[]" and r="?r2"]
    by (simp add: HasPrefix_def)
  have 3: "ServeHTTP ?E ?H [] ?r3 = ?o3"
    using port80_ServeHTTP[where E="?E" and w="[]" and r="?r3"
        and host="''example.com''" and port="''80''"]
    by (simp add: HasPrefix_def split_example_80 JoinHostPort_def)
  have a: "AllowDebugAccess ?E ?r4"
    by (simp add: AllowDebugAccess_def Header_Get_def split_loopback)
  have 4: "ServeHTTP ?E ?H [] ?r4 = ?o4"
    using port80_ServeHTTP[where E="?E" and w="[]" and r="?r4"] a
    by (simp add: HasPrefix_def split_example)
  from 1 2 3 4 show ?thesis by blast
qed

subsection \<open>The varz exporter\<close>

text \<open>\<open>dump\<close> only appends to the writer, so a run of dumps is the concatenation of each.\<close>

lemma fold_append_only:
  assumes "\<And>x w. x \<in> set xs \<Longrightarrow> f x w = w @ f x []"
  shows "fold f xs w = w @ concat (map (\<lambda>x. f x []) xs)"
  using assms
proof (induction xs arbitrary: w)
  case Nil
  show ?case by simp
next
  case (Cons x xs)
  have hd: "f x w = w @ f x []"
    by (rule Cons.prems) simp
  have tl: "fold f xs (f x w) = f x w @ concat (map (\<lambda>x. f x []) xs)"
    by (rule Cons.IH) (rule Cons.prems, simp)
  have "fold f (x # xs) w = fold f xs (f x w)" by simp
  also note tl
  also have "f x w @ concat (map (\<lambda>x. f x []) xs) =
      w @ (f x [] @ concat (map (\<lambda>x. f x []) xs))"
    by (subst hd) simp
  finally show ?case by simp
qed

lemma dump_append: "dump pre kv w = w @ dump pre kv []"
proof (induction pre kv w rule: dump.induct)
  case (2 pre key kvs w)
  have step: "\<And>x w. x \<in> set kvs \<Longrightarrow>
      dump ((pre @ key) @ ''_'') x w = w @ dump ((pre @ key) @ ''_'') x []"
    by (rule 2) (rule refl)
  have "fold (dump ((pre @ key) @ ''_'')) kvs w =
      w @ concat (map (\<lambda>x. dump ((pre @ key) @ ''_'') x []) kvs)"
    by (rule fold_append_only) (rule step)
  moreover have "fold (dump ((pre @ key) @ ''_'')) kvs [] =
      [] @ concat (map (\<lambda>x. dump ((pre @ key) @ ''_'') x []) kvs)"
    by (rule fold_append_only) (rule step)
  ultimately show ?case by (simp add: Let_def)
qed (auto simp: Let_def split: func_result.splits prod.splits)

lemma dump_Set:
  "dump pre (key, metrics_Set kvs) w =
     w @ concat (map (\<lambda>kv. dump (pre @ key @ ''_'') kv []) kvs)"
proof -
  have "fold (dump (pre @ key @ ''_'')) kvs w =
      w @ concat (map (\<lambda>kv. dump (pre @ key @ ''_'') kv []) kvs)"
    by (rule fold_append_only) (rule dump_append)
  then show ?thesis by (simp add: Let_def)
qed

lemma varzHandler_unfold:
  "varzHandler vars w r =
     w @ HeaderSet ''Content-Type'' ''text/plain; version=0.0.4''
       # concat (map (\<lambda>kv. dump [] kv []) vars)"
proof -
  have "fold (dump []) vars (w @ [HeaderSet ''Content-Type'' ''text/plain; version=0.0.4'']) =
      (w @ [HeaderSet ''Content-Type'' ''text/plain; version=0.0.4''])
        @ concat (map (\<lambda>kv. dump [] kv []) vars)"
    by (rule fold_append_only) (rule dump_append)
  then show ?thesis by (simp add: varzHandler_def)
qed

lemma typ_name_gauge: "typ_name pre (''gauge_'' @ rest) = (''gauge'', pre @ rest)"
  by (simp add: typ_name_def TrimPrefix_def HasPrefix_def)

lemma typ_name_counter: "typ_name pre (''counter_'' @ rest) = (''counter'', pre @ rest)"
  by (simp add: typ_name_def TrimPrefix_def HasPrefix_def)

lemma typ_name_plain:
  "\<not> HasPrefix key ''gauge_'' \<Longrightarrow> \<not> HasPrefix key ''counter_'' \<Longrightarrow>
     typ_name pre key = ([], pre @ key)"
  by (simp add: typ_name_def)

text \<open>
  Claim C10. What \<open>varzHandler\<close> prints for each kind of value. An \<open>expvar.Int\<close> is a
  metric of type counter under its name. A \<open>metrics.Set\<close> is the dumps of its members,
  in order, under the prefix extended by the key of the set and an underscore. An
  \<open>expvar.Func\<close> that returns an \<open>int\<close> or an \<open>int64\<close> is a metric of type gauge or
  counter when its key starts with \<open>gauge_\<close> or \<open>counter_\<close>, named without that
  prefix; under any other key it is one skipping line and no metric. A \<open>Func\<close> that
  returns another type, and any other value, is one skipping line and no metric. The
  handler sets the content type and dumps every published variable under the empty
  prefix.
\<close>

theorem varz_exported_kinds:
  "dump pre (key, expvar_Int v) w = w @ [Fprintf (Metric (pre @ key) ''counter'' v)]
   \<and> dump pre (key, metrics_Set kvs) w =
       w @ concat (map (\<lambda>kv. dump (pre @ key @ ''_'') kv []) kvs)
   \<and> (val = ret_int n \<or> val = ret_int64 n \<longrightarrow>
        dump pre (''gauge_'' @ rest, expvar_Func val) w =
          w @ [Fprintf (Metric (pre @ rest) ''gauge'' n)]
      \<and> dump pre (''counter_'' @ rest, expvar_Func val) w =
          w @ [Fprintf (Metric (pre @ rest) ''counter'' n)]
      \<and> (\<not> HasPrefix key ''gauge_'' \<and> \<not> HasPrefix key ''counter_'' \<longrightarrow>
           (\<exists>T. dump pre (key, expvar_Func val) w =
                  w @ [Fprintf (SkippingExpvarFunc (pre @ key) T)])))
   \<and> (\<exists>name. dump pre (key, expvar_Func (ret_other T)) w =
                w @ [Fprintf (SkippingExpvarFunc name T)])
   \<and> (\<exists>name. dump pre (key, other_Var T) w = w @ [Fprintf (SkippingFunc name T)])
   \<and> varzHandler vars w r =
       w @ HeaderSet ''Content-Type'' ''text/plain; version=0.0.4''
         # concat (map (\<lambda>kv. dump [] kv []) vars)"
proof (intro conjI impI)
  show "dump pre (key, expvar_Int v) w = w @ [Fprintf (Metric (pre @ key) ''counter'' v)]"
    by (simp add: Let_def)
  show "dump pre (key, metrics_Set kvs) w =
       w @ concat (map (\<lambda>kv. dump (pre @ key @ ''_'') kv []) kvs)"
    by (rule dump_Set)
  show "\<exists>name. dump pre (key, expvar_Func (ret_other T)) w =
                w @ [Fprintf (SkippingExpvarFunc name T)]"
    by (cases "typ_name pre key") simp
  show "\<exists>name. dump pre (key, other_Var T) w = w @ [Fprintf (SkippingFunc name T)]"
    by (cases "typ_name pre key") simp
  show "varzHandler vars w r =
       w @ HeaderSet ''Content-Type'' ''text/plain; version=0.0.4''
         # concat (map (\<lambda>kv. dump [] kv []) vars)"
    by (rule varzHandler_unfold)
next
  assume v: "val = ret_int n \<or> val = ret_int64 n"
  show "dump pre (''gauge_'' @ rest, expvar_Func val) w =
          w @ [Fprintf (Metric (pre @ rest) ''gauge'' n)]"
    using v typ_name_gauge[of pre rest] by auto
  show "dump pre (''counter_'' @ rest, expvar_Func val) w =
          w @ [Fprintf (Metric (pre @ rest) ''counter'' n)]"
    using v typ_name_counter[of pre rest] by auto
next
  assume v: "val = ret_int n \<or> val = ret_int64 n"
    and p: "\<not> HasPrefix key ''gauge_'' \<and> \<not> HasPrefix key ''counter_''"
  show "\<exists>T. dump pre (key, expvar_Func val) w =
                  w @ [Fprintf (SkippingExpvarFunc (pre @ key) T)]"
    using v p typ_name_plain[of key pre] by auto
qed

text \<open>
  The theorem at concrete variables: the uptime counter, a gauge inside a set, an
  untyped function, and a whole registry with a nested set.
\<close>

theorem varz_exported_kinds_witness:
  "dump [] (''counter_uptime_sec'', expvar_Func (ret_int64 77)) [] =
     [Fprintf (Metric ''uptime_sec'' ''counter'' 77)]
   \<and> dump ''s_'' (''gauge_x'', expvar_Func (ret_int 5)) [] =
     [Fprintf (Metric ''s_x'' ''gauge'' 5)]
   \<and> (\<exists>T. dump [] (''plain'', expvar_Func (ret_int 5)) [] =
          [Fprintf (SkippingExpvarFunc ''plain'' T)])
   \<and> varzHandler
       [(''a'', expvar_Int 3),
        (''s'', metrics_Set [(''gauge_x'', expvar_Func (ret_int 5)), (''t'', expvar_Int 9)])]
       []
       \<lparr>Method = ''GET'', RequestURI = ''/debug/varz'', Host = ''example.com'',
        RemoteAddr = ''127.0.0.1:5000'', Header = (\<lambda>_. [])\<rparr>
     = [HeaderSet ''Content-Type'' ''text/plain; version=0.0.4'',
        Fprintf (Metric ''a'' ''counter'' 3),
        Fprintf (Metric ''s_x'' ''gauge'' 5),
        Fprintf (Metric ''s_t'' ''counter'' 9)]"
proof -
  have 1: "dump [] (''counter_uptime_sec'', expvar_Func (ret_int64 77)) [] =
     [Fprintf (Metric ''uptime_sec'' ''counter'' 77)]"
    using varz_exported_kinds[where val="ret_int64 77" and n=77 and pre="[]" and w="[]"
        and rest="''uptime_sec''"]
    by simp
  have 2: "dump ''s_'' (''gauge_x'', expvar_Func (ret_int 5)) [] =
     [Fprintf (Metric ''s_x'' ''gauge'' 5)]"
    using varz_exported_kinds[where val="ret_int 5" and n=5 and pre="''s_''" and w="[]"
        and rest="''x''"]
    by simp
  have 3: "\<exists>T. dump [] (''plain'', expvar_Func (ret_int 5)) [] =
          [Fprintf (SkippingExpvarFunc ''plain'' T)]"
    using varz_exported_kinds[where val="ret_int 5" and n=5 and pre="[]" and w="[]"
        and key="''plain''"]
    by (simp add: HasPrefix_def)
  have 4: "varzHandler
       [(''a'', expvar_Int 3),
        (''s'', metrics_Set [(''gauge_x'', expvar_Func (ret_int 5)), (''t'', expvar_Int 9)])]
       []
       \<lparr>Method = ''GET'', RequestURI = ''/debug/varz'', Host = ''example.com'',
        RemoteAddr = ''127.0.0.1:5000'', Header = (\<lambda>_. [])\<rparr>
     = [HeaderSet ''Content-Type'' ''text/plain; version=0.0.4'',
        Fprintf (Metric ''a'' ''counter'' 3),
        Fprintf (Metric ''s_x'' ''gauge'' 5),
        Fprintf (Metric ''s_t'' ''counter'' 9)]"
    using varz_exported_kinds[where w="[]" and vars="[(''a'', expvar_Int 3),
        (''s'', metrics_Set [(''gauge_x'', expvar_Func (ret_int 5)), (''t'', expvar_Int 9)])]"]
    by (simp add: Let_def typ_name_def HasPrefix_def TrimPrefix_def)
  from 1 2 3 4 show ?thesis by blast
qed

section \<open>Properties of the Peer Endpoint Table and of Send\<close>

subsection \<open>The preferred address\<close>











subsection \<open>Undeliverable peers and Send\<close>







end
